theory Spec2Isabelle
  imports Main
begin

section \<open>Data model of the payment middleware (masumi/main.py)\<close>

text \<open>
  JSON values, as returned by \<^verbatim>\<open>response.json()\<close> and by the payment library.
  Python's \<^verbatim>\<open>None\<close> is \<open>JNull\<close>; a dict is the list of its items.
\<close>

datatype json =
    JNull
  | JBool bool
  | JNum int
  | JStr string
  | JArr "json list"
  | JObj "(string \<times> json) list"

text \<open>
  The request bodies built by the endpoints are dicts from field names to strings
  (every field of the pydantic models used here is a \<^verbatim>\<open>str\<close>).
\<close>

type_synonym pydict = "(string \<times> string) list"

text \<open>
  The \<^verbatim>\<open>payload\<close> dict has the keys \<^verbatim>\<open>endpoint\<close>, \<^verbatim>\<open>method\<close> and \<^verbatim>\<open>data\<close>; a key that is
  absent is \<open>None\<close>, so that \<^verbatim>\<open>payload["endpoint"]\<close> can raise and
  \<^verbatim>\<open>payload.get("method", "POST")\<close> can take its default.
\<close>

record payload_dict =
  p_endpoint :: "string option"
  p_method :: "string option"
  p_data :: "pydict option"

text \<open>The exceptions that travel through the code, as values.\<close>

datatype exn =
    KeyError string
  | AttributeError string
  | HTTPException int string
  | PaymentError string

datatype job_status = AwaitingPayment | Running | Completed | Failed

text \<open>
  One entry of the \<^verbatim>\<open>jobs\<close> dict (lines 208-216). The key \<^verbatim>\<open>error\<close> is absent until the
  exception handler of the settlement callback writes it.
\<close>

record job =
  status :: job_status
  payment_status :: json
  payment_id :: string
  action :: string
  payload :: payload_dict
  result :: json
  identifier_from_purchaser :: string
  error :: "string option"

text \<open>
  The \<^verbatim>\<open>Payment\<close> object of the external masumi library, as far as this file builds it
  (lines 192-199 and 204).
\<close>

record payment =
  pay_agent_identifier :: "string option"
  pay_amounts :: "(string \<times> string) list"
  pay_identifier_from_purchaser :: string
  pay_input_action :: string
  pay_input_payload :: payload_dict
  payment_ids :: "string set"

text \<open>Every call that leaves the process is recorded, in order.\<close>

datatype event =
    HttpPost string "pydict option"
  | HttpGet string
  | CreatePaymentRequest payment
  | StartStatusMonitoring payment
  | StopStatusMonitoring payment
  | CheckPaymentStatus payment
  | CompletePayment payment string json

text \<open>What the httpx client does with one request (lines 112-132).\<close>

datatype http_outcome =
    Response json
  | TimeoutException
  | HTTPStatusError int string
  | OtherException string

text \<open>
  The collaborators outside this file: the Express server behind httpx, the masumi
  payment library, the uuid generator, the environment variables, and Python's
  \<^verbatim>\<open>str(e)\<close>. Each answer may depend on the calls made so far.
  \<^verbatim>\<open>stop_status_monitoring\<close> is synchronous, returns nothing and is only recorded.
\<close>

record world =
  EXPRESS_SERVER_URL :: string
  AGENT_IDENTIFIER :: "string option"
  SELLER_VKEY :: "string option"
  client_post :: "event list \<Rightarrow> string \<Rightarrow> pydict option \<Rightarrow> http_outcome"
  client_get :: "event list \<Rightarrow> string \<Rightarrow> http_outcome"
  create_payment_request :: "event list \<Rightarrow> payment \<Rightarrow> exn + pydict"
  start_status_monitoring :: "event list \<Rightarrow> payment \<Rightarrow> exn option"
  check_payment_status :: "event list \<Rightarrow> payment \<Rightarrow> exn + json"
  complete_payment :: "event list \<Rightarrow> payment \<Rightarrow> string \<Rightarrow> json \<Rightarrow> exn option"
  uuid4 :: "event list \<Rightarrow> string"
  uuid4_time_low :: "event list \<Rightarrow> string"
  input_hash :: "payment \<Rightarrow> string"
  str_exn :: "exn \<Rightarrow> string"

text \<open>The three module-level dicts (lines 38-40) and the record of outside calls.\<close>

record state =
  jobs :: "string \<rightharpoonup> job"
  payment_instances :: "string \<rightharpoonup> payment"
  project_payments :: "string \<rightharpoonup> bool"
  history :: "event list"

definition initial_state :: state where
  "initial_state =
     \<lparr>jobs = Map.empty, payment_instances = Map.empty,
      project_payments = Map.empty, history = []\<rparr>"

definition record_call :: "event \<Rightarrow> state \<Rightarrow> state" where
  "record_call ev st = st\<lparr>history := history st @ [ev]\<rparr>"

section \<open>Express server communication (lines 109-132)\<close>

definition express_outcome :: "http_outcome \<Rightarrow> exn + json" where
  "express_outcome out =
     (case out of
        Response body \<Rightarrow> Inr body
      | TimeoutException \<Rightarrow> Inl (HTTPException 504 ''Express server timeout'')
      | HTTPStatusError code txt \<Rightarrow>
          Inl (HTTPException code (''Express server error: '' @ txt))
      | OtherException msg \<Rightarrow>
          Inl (HTTPException 500 (''Failed to communicate with Express server: '' @ msg)))"

definition call_express_api ::
  "world \<Rightarrow> string \<Rightarrow> string \<Rightarrow> pydict option \<Rightarrow> state \<Rightarrow> (exn + json) \<times> state" where
  "call_express_api w endpoint method data st =
     (let url = EXPRESS_SERVER_URL w @ endpoint in
      if method = ''POST'' then
        (express_outcome (client_post w (history st) url data),
         record_call (HttpPost url data) st)
      else if method = ''GET'' then
        (express_outcome (client_get w (history st) url),
         record_call (HttpGet url) st)
      else
        (express_outcome (OtherException (''Unsupported HTTP method: '' @ method)), st))"

section \<open>Payment processing (lines 137-178)\<close>

text \<open>\<^verbatim>\<open>jobs[job_id][...] = ...\<close>: raises KeyError when the job is not in the dict.\<close>

definition update_job :: "string \<Rightarrow> (job \<Rightarrow> job) \<Rightarrow> state \<Rightarrow> exn + state" where
  "update_job job_id f st =
     (case jobs st job_id of
        None \<Rightarrow> Inl (KeyError job_id)
      | Some j \<Rightarrow> Inr (st\<lparr>jobs := (jobs st)(job_id \<mapsto> f j)\<rparr>))"

text \<open>Line 143: the first statement of the try block.\<close>

definition mark_running :: "string \<Rightarrow> state \<Rightarrow> exn + state" where
  "mark_running job_id st = update_job job_id (\<lambda>j. j\<lparr>status := Running\<rparr>) st"

text \<open>Python's \<^verbatim>\<open>s.split(c)\<close> for a one-character separator; the list is never empty.\<close>

fun split_on :: "char \<Rightarrow> string \<Rightarrow> string list" where
  "split_on c [] = [[]]"
| "split_on c (x # xs) =
     (if x = c then [] # split_on c xs
      else (case split_on c xs of
              [] \<Rightarrow> [[x]]
            | piece # pieces \<Rightarrow> (x # piece) # pieces))"

text \<open>Line 161: the resource key comes from the request payload.\<close>

definition project_key :: "pydict \<Rightarrow> string" where
  "project_key d =
     (case map_of d ''projectId'' of
        Some v \<Rightarrow> v
      | None \<Rightarrow>
          last (split_on (CHR ''/'')
                  (case map_of d ''repoUrl'' of None \<Rightarrow> [] | Some u \<Rightarrow> u)))"

text \<open>Lines 160-163.\<close>

definition track_project_payment :: "string \<Rightarrow> payload_dict \<Rightarrow> state \<Rightarrow> exn + state" where
  "track_project_payment act pl st =
     (if act = ''create_project'' then
        (case p_data pl of
           None \<Rightarrow> Inl (KeyError ''data'')
         | Some d \<Rightarrow>
             Inr (st\<lparr>project_payments := (project_payments st)(project_key d \<mapsto> True)\<rparr>))
      else Inr st)"

text \<open>Lines 166-168 and 176-178: stop monitoring and drop the payment instance.\<close>

definition release_monitoring :: "string \<Rightarrow> state \<Rightarrow> state" where
  "release_monitoring job_id st =
     (case payment_instances st job_id of
        None \<Rightarrow> st
      | Some p \<Rightarrow>
          (record_call (StopStatusMonitoring p) st)
            \<lparr>payment_instances := (payment_instances st)(job_id := None)\<rparr>)"

text \<open>Lines 146-168: the try block after the job is marked running.\<close>

definition dispatch_and_complete ::
  "world \<Rightarrow> string \<Rightarrow> string \<Rightarrow> string \<Rightarrow> payload_dict \<Rightarrow> state \<Rightarrow> exn option \<times> state" where
  "dispatch_and_complete w job_id pid act pl st =
     (case p_endpoint pl of
        None \<Rightarrow> (Some (KeyError ''endpoint''), st)
      | Some ep \<Rightarrow>
          (case call_express_api w ep
                  (case p_method pl of None \<Rightarrow> ''POST'' | Some m \<Rightarrow> m) (p_data pl) st of
             (Inl e, st2) \<Rightarrow> (Some e, st2)
           | (Inr res, st2) \<Rightarrow>
               (case payment_instances st2 job_id of
                  None \<Rightarrow> (Some (KeyError job_id), st2)
                | Some p \<Rightarrow>
                    (let st3 = record_call (CompletePayment p pid res) st2 in
                     case complete_payment w (history st2) p pid res of
                       Some e \<Rightarrow> (Some e, st3)
                     | None \<Rightarrow>
                         (case update_job job_id
                                 (\<lambda>j. j\<lparr>status := Completed,
                                        payment_status := JStr ''completed'',
                                        result := res\<rparr>) st3 of
                            Inl e \<Rightarrow> (Some e, st3)
                          | Inr st4 \<Rightarrow>
                              (case track_project_payment act pl st4 of
                                 Inl e \<Rightarrow> (Some e, st4)
                               | Inr st5 \<Rightarrow> (None, release_monitoring job_id st5)))))))"

text \<open>Lines 139-168: the whole try block.\<close>

definition try_block ::
  "world \<Rightarrow> string \<Rightarrow> string \<Rightarrow> string \<Rightarrow> payload_dict \<Rightarrow> state \<Rightarrow> exn option \<times> state" where
  "try_block w job_id pid act pl st =
     (case mark_running job_id st of
        Inl e \<Rightarrow> (Some e, st)
      | Inr st1 \<Rightarrow> dispatch_and_complete w job_id pid act pl st1)"

text \<open>
  Lines 170-178: the handler. Its own first statement raises KeyError when the job is
  not in the dict, and that exception leaves the function.
\<close>

definition except_block :: "world \<Rightarrow> string \<Rightarrow> exn \<Rightarrow> state \<Rightarrow> exn option \<times> state" where
  "except_block w job_id e st =
     (case update_job job_id (\<lambda>j. j\<lparr>status := Failed, error := Some (str_exn w e)\<rparr>) st of
        Inl e' \<Rightarrow> (Some e', st)
      | Inr st1 \<Rightarrow> (None, release_monitoring job_id st1))"

definition process_payment_and_execute ::
  "world \<Rightarrow> string \<Rightarrow> string \<Rightarrow> string \<Rightarrow> payload_dict \<Rightarrow> state \<Rightarrow> exn option \<times> state" where
  "process_payment_and_execute w job_id pid act pl st =
     (case try_block w job_id pid act pl st of
        (None, st') \<Rightarrow> (None, st')
      | (Some e, st') \<Rightarrow> except_block w job_id e st')"

text \<open>Lines 218-219: the callback registered with the monitor, a closure over the job.\<close>

definition payment_callback ::
  "world \<Rightarrow> string \<Rightarrow> string \<Rightarrow> payload_dict \<Rightarrow> string \<Rightarrow> state \<Rightarrow> exn option \<times> state" where
  "payment_callback w job_id act pl pid st = process_payment_and_execute w job_id pid act pl st"

text \<open>
  The states the dicts pass through in one run of lines 137-178: after line 143, at the
  end of the try block (reached normally or left by an exception), and after the
  handler when it runs. The last of them is the state the function returns in.
\<close>

definition callback_steps ::
  "world \<Rightarrow> string \<Rightarrow> string \<Rightarrow> string \<Rightarrow> payload_dict \<Rightarrow> state \<Rightarrow> state list" where
  "callback_steps w job_id pid act pl st =
     (case mark_running job_id st of
        Inl e \<Rightarrow> [snd (except_block w job_id e st)]
      | Inr st1 \<Rightarrow>
          (case dispatch_and_complete w job_id pid act pl st1 of
             (None, s) \<Rightarrow> [st1, s]
           | (Some e, s) \<Rightarrow> [st1, s, snd (except_block w job_id e s)]))"

section \<open>Job creation (lines 180-239)\<close>

record job_response =
  r_status :: string
  r_job_id :: string
  r_blockchainIdentifier :: string
  r_submitResultTime :: string
  r_unlockTime :: string
  r_externalDisputeUnlockTime :: string
  r_agentIdentifier :: "string option"
  r_sellerVkey :: "string option"
  r_identifierFromPurchaser :: string
  r_amounts :: "(string \<times> string) list"
  r_input_hash :: string

text \<open>\<^verbatim>\<open>d[k]\<close> on a dict.\<close>

definition subscript :: "pydict \<Rightarrow> string \<Rightarrow> exn + string" where
  "subscript d k = (case map_of d k of None \<Rightarrow> Inl (KeyError k) | Some v \<Rightarrow> Inr v)"

text \<open>Lines 227-239: the returned dict, read from \<^verbatim>\<open>payment_request["data"]\<close>.\<close>

definition build_response ::
  "world \<Rightarrow> string \<Rightarrow> payment \<Rightarrow> pydict \<Rightarrow> exn + job_response" where
  "build_response w job_id p d =
     (case subscript d ''blockchainIdentifier'' of
        Inl e \<Rightarrow> Inl e
      | Inr bid \<Rightarrow>
     (case subscript d ''submitResultTime'' of
        Inl e \<Rightarrow> Inl e
      | Inr srt \<Rightarrow>
     (case subscript d ''unlockTime'' of
        Inl e \<Rightarrow> Inl e
      | Inr ut \<Rightarrow>
     (case subscript d ''externalDisputeUnlockTime'' of
        Inl e \<Rightarrow> Inl e
      | Inr edut \<Rightarrow>
          Inr \<lparr>r_status = ''success'', r_job_id = job_id,
               r_blockchainIdentifier = bid, r_submitResultTime = srt,
               r_unlockTime = ut, r_externalDisputeUnlockTime = edut,
               r_agentIdentifier = AGENT_IDENTIFIER w, r_sellerVkey = SELLER_VKEY w,
               r_identifierFromPurchaser = pay_identifier_from_purchaser p,
               r_amounts = pay_amounts p, r_input_hash = input_hash w p\<rparr>))))"

text \<open>Lines 188-199: the payment object, one amount in lovelace.\<close>

definition new_payment ::
  "world \<Rightarrow> string \<Rightarrow> string \<Rightarrow> string \<Rightarrow> payload_dict \<Rightarrow> payment" where
  "new_payment w ident amount act pl =
     \<lparr>pay_agent_identifier = AGENT_IDENTIFIER w,
      pay_amounts = [(amount, ''lovelace'')],
      pay_identifier_from_purchaser = ident,
      pay_input_action = act,
      pay_input_payload = pl,
      payment_ids = {}\<rparr>"

definition create_payment_job ::
  "world \<Rightarrow> string \<Rightarrow> string \<Rightarrow> string \<Rightarrow> payload_dict \<Rightarrow> state
     \<Rightarrow> (exn + job_response) \<times> state" where
  "create_payment_job w ident amount act pl st =
     (let job_id = uuid4 w (history st);
          p0 = new_payment w ident amount act pl;
          st1 = record_call (CreatePaymentRequest p0) st
      in case create_payment_request w (history st) p0 of
           Inl e \<Rightarrow> (Inl e, st1)
         | Inr d \<Rightarrow>
             (case subscript d ''blockchainIdentifier'' of
                Inl e \<Rightarrow> (Inl e, st1)
              | Inr pid \<Rightarrow>
                  (let p = p0\<lparr>payment_ids := insert pid (payment_ids p0)\<rparr>;
                       st2 = st1\<lparr>jobs := (jobs st1)(job_id \<mapsto>
                               \<lparr>status = AwaitingPayment,
                                payment_status = JStr ''pending'',
                                payment_id = pid,
                                action = act,
                                payload = pl,
                                result = JNull,
                                identifier_from_purchaser = ident,
                                error = None\<rparr>)\<rparr>;
                       st3 = st2\<lparr>payment_instances := (payment_instances st2)(job_id \<mapsto> p)\<rparr>;
                       st4 = record_call (StartStatusMonitoring p) st3
                   in case start_status_monitoring w (history st3) p of
                        Some e \<Rightarrow> (Inl e, st4)
                      | None \<Rightarrow> (build_response w job_id p d, st4))))"

section \<open>API endpoints (lines 246-439)\<close>

record CreateProjectRequest =
  cp_identifier_from_purchaser :: string
  cp_repoUrl :: string
  cp_walletAddress :: string
  cp_side :: string

record SetupInfoRequest =
  si_projectId :: string
  si_name :: string
  si_description :: string
  si_technicalDescription :: string
  si_imageUrl :: string

record InteractRequest =
  in_identifier_from_purchaser :: string
  in_projectId :: string
  in_prompt :: string


text \<open>Python's \<^verbatim>\<open>s.replace(pat, "")\<close> for a non-empty pattern.\<close>

fun py_remove :: "string \<Rightarrow> string \<Rightarrow> string" where
  "py_remove pat [] = []"
| "py_remove pat (c # cs) =
     (if pat \<noteq> [] \<and> take (length pat) (c # cs) = pat
      then py_remove pat (drop (length pat) (c # cs))
      else c # py_remove pat cs)"

text \<open>\<^verbatim>\<open>except Exception as e: raise HTTPException(500, prefix + str(e))\<close>.\<close>

definition wrap_500 :: "world \<Rightarrow> string \<Rightarrow> (exn + 'a) \<times> state \<Rightarrow> (exn + 'a) \<times> state" where
  "wrap_500 w prefix r =
     (case r of
        (Inl e, st) \<Rightarrow> (Inl (HTTPException 500 (prefix @ str_exn w e)), st)
      | (Inr v, st) \<Rightarrow> (Inr v, st))"

text \<open>
  \<^verbatim>\<open>except HTTPException: raise\<close> followed by
  \<^verbatim>\<open>except Exception as e: raise HTTPException(500, prefix + str(e))\<close>.
\<close>

definition reraise_http :: "world \<Rightarrow> string \<Rightarrow> (exn + 'a) \<times> state \<Rightarrow> (exn + 'a) \<times> state" where
  "reraise_http w prefix r =
     (case r of
        (Inl (HTTPException code detail), st) \<Rightarrow> (Inl (HTTPException code detail), st)
      | (Inl e, st) \<Rightarrow> (Inl (HTTPException 500 (prefix @ str_exn w e)), st)
      | (Inr v, st) \<Rightarrow> (Inr v, st))"

definition create_project ::
  "world \<Rightarrow> CreateProjectRequest \<Rightarrow> state \<Rightarrow> (exn + job_response) \<times> state" where
  "create_project w req st =
     (let project_id =
            py_remove ''.git'' (last (split_on (CHR ''/'') (cp_repoUrl req)))
              @ ''-'' @ uuid4_time_low w (history st);
          pl = \<lparr>p_endpoint = Some ''/api/projects/create'',
                p_method = Some ''POST'',
                p_data = Some [(''repoUrl'', cp_repoUrl req),
                               (''walletAddress'', cp_walletAddress req),
                               (''side'', cp_side req),
                               (''projectId'', project_id)]\<rparr>
      in wrap_500 w ''Failed to create project: ''
           (create_payment_job w (cp_identifier_from_purchaser req)
              ''5000000'' ''create_project'' pl st))"

definition payment_required :: exn where
  "payment_required = HTTPException 402 ''Project creation payment required first''"

text \<open>The returned dict \<^verbatim>\<open>{"status": "success", "result": result}\<close> is given by its result.\<close>

definition setup_info ::
  "world \<Rightarrow> SetupInfoRequest \<Rightarrow> state \<Rightarrow> (exn + json) \<times> state" where
  "setup_info w req st =
     reraise_http w ''Failed to setup project info: ''
       (case project_payments st (si_projectId req) of
          None \<Rightarrow> (Inl payment_required, st)
        | Some flag \<Rightarrow>
            call_express_api w
              (''/api/projects/'' @ si_projectId req @ ''/setup-info'') ''POST''
              (Some [(''name'', si_name req),
                     (''description'', si_description req),
                     (''technicalDescription'', si_technicalDescription req),
                     (''imageUrl'', si_imageUrl req)]) st)"

definition interact ::
  "world \<Rightarrow> InteractRequest \<Rightarrow> state \<Rightarrow> (exn + job_response) \<times> state" where
  "interact w req st =
     (let pl = \<lparr>p_endpoint = Some (''/api/projects/'' @ in_projectId req @ ''/interact''),
                p_method = Some ''POST'',
                p_data = Some [(''prompt'', in_prompt req)]\<rparr>
      in wrap_500 w ''Failed to process interaction: ''
           (create_payment_job w (in_identifier_from_purchaser req)
              ''1000000'' ''interact'' pl st))"


section \<open>Status endpoint (lines 445-471)\<close>

record job_view =
  v_job_id :: string
  v_status :: job_status
  v_payment_status :: json
  v_action :: string
  v_result :: json

text \<open>Line 459: \<^verbatim>\<open>status.get("data", {}).get("status")\<close>.\<close>

definition status_of_response :: "json \<Rightarrow> exn + json" where
  "status_of_response s =
     (case s of
        JObj kv \<Rightarrow>
          (case map_of kv ''data'' of
             None \<Rightarrow> Inr JNull
           | Some (JObj kv2) \<Rightarrow>
               Inr (case map_of kv2 ''status'' of None \<Rightarrow> JNull | Some v \<Rightarrow> v)
           | Some _ \<Rightarrow> Inl (AttributeError ''get''))
      | _ \<Rightarrow> Inl (AttributeError ''get''))"

text \<open>Lines 456-463: the poll; every exception inside it becomes the marker \<^verbatim>\<open>"error"\<close>.\<close>

definition poll_payment_status :: "world \<Rightarrow> string \<Rightarrow> job \<Rightarrow> state \<Rightarrow> job \<times> state" where
  "poll_payment_status w job_id j st =
     (case payment_instances st job_id of
        None \<Rightarrow> (j, st)
      | Some p \<Rightarrow>
          (let st1 = record_call (CheckPaymentStatus p) st in
           case check_payment_status w (history st) p of
             Inl e \<Rightarrow> (j\<lparr>payment_status := JStr ''error''\<rparr>, st1)
           | Inr s \<Rightarrow>
               (case status_of_response s of
                  Inl e \<Rightarrow> (j\<lparr>payment_status := JStr ''error''\<rparr>, st1)
                | Inr v \<Rightarrow> (j\<lparr>payment_status := v\<rparr>, st1))))"

definition get_status :: "world \<Rightarrow> string \<Rightarrow> state \<Rightarrow> (exn + job_view) \<times> state" where
  "get_status w job_id st =
     (case jobs st job_id of
        None \<Rightarrow> (Inl (HTTPException 404 ''Job not found''), st)
      | Some j \<Rightarrow>
          (case poll_payment_status w job_id j st of
             (j', st1) \<Rightarrow>
               (Inr \<lparr>v_job_id = job_id, v_status = status j',
                     v_payment_status = payment_status j',
                     v_action = action j', v_result = result j'\<rparr>,
                st1\<lparr>jobs := (jobs st1)(job_id \<mapsto> j')\<rparr>)))"

section \<open>Observations on states and on the record of calls\<close>

fun is_dispatch :: "event \<Rightarrow> bool" where
  "is_dispatch (HttpPost url d) = True"
| "is_dispatch (HttpGet url) = True"
| "is_dispatch ev = False"

text \<open>The number of requests sent to the Express server.\<close>

definition dispatches :: "event list \<Rightarrow> nat" where
  "dispatches evs = length (filter is_dispatch evs)"

fun is_payment_call :: "event \<Rightarrow> bool" where
  "is_payment_call (HttpPost url d) = False"
| "is_payment_call (HttpGet url) = False"
| "is_payment_call ev = True"

fun requested_amounts :: "event list \<Rightarrow> (string \<times> string) list list" where
  "requested_amounts [] = []"
| "requested_amounts (CreatePaymentRequest p # evs) = pay_amounts p # requested_amounts evs"
| "requested_amounts (ev # evs) = requested_amounts evs"

text \<open>The calls made between two states.\<close>

definition new_calls :: "state \<Rightarrow> state \<Rightarrow> event list" where
  "new_calls st st' = drop (length (history st)) (history st')"

definition status_of :: "string \<Rightarrow> state \<Rightarrow> job_status option" where
  "status_of job_id st = map_option status (jobs st job_id)"

text \<open>The number written by a string of decimal digits, as the amounts are.\<close>

definition digit_value :: "char \<Rightarrow> nat" where
  "digit_value c = of_char c - 48"

definition amount_value :: "string \<Rightarrow> nat" where
  "amount_value s = foldl (\<lambda>acc c. 10 * acc + digit_value c) 0 s"


section \<open>Sequences of operations\<close>









section \<open>A concrete run\<close>

text \<open>Decimal digits of a number, as Python formats an int.\<close>

definition digit_char :: "nat \<Rightarrow> char" where
  "digit_char n = ''0123456789'' ! (n mod 10)"

function decimal :: "nat \<Rightarrow> string" where
  "decimal n =
     (if n < 10 then [digit_char n]
      else decimal (n div 10) @ [digit_char (n mod 10)])"
  by pat_completeness auto
termination
  by (relation "measure id") auto

declare decimal.simps [simp del]

text \<open>
  \<^verbatim>\<open>str(e)\<close> where the web framework's \<^verbatim>\<open>HTTPException\<close> defines \<^verbatim>\<open>__str__\<close> as
  \<^verbatim>\<open>f"{status_code}: {detail}"\<close>. A KeyError is rendered by the repr of its key, here
  for keys without quotes or escapes; the other exceptions by their message.
\<close>

definition demo_str_exn :: "exn \<Rightarrow> string" where
  "demo_str_exn e =
     (case e of
        KeyError k \<Rightarrow> [CHR 0x27] @ k @ [CHR 0x27]
      | AttributeError a \<Rightarrow> a
      | HTTPException code detail \<Rightarrow>
          (if code < 0 then ''-'' else []) @ decimal (nat \<bar>code\<bar>) @ '': '' @ detail
      | PaymentError msg \<Rightarrow> msg)"


text \<open>A world in which every collaborator answers; Express returns a project id \<open>p1\<close>.\<close>

definition demo_world :: world where
  "demo_world =
     \<lparr>EXPRESS_SERVER_URL = ''http://localhost:3000'',
      AGENT_IDENTIFIER = Some ''agent'',
      SELLER_VKEY = Some ''vkey'',
      client_post = (\<lambda>h url d. Response (JObj [(''projectId'', JStr ''p1'')])),
      client_get = (\<lambda>h url. Response JNull),
      create_payment_request =
        (\<lambda>h p. Inr [(''blockchainIdentifier'', ''pay1''), (''submitResultTime'', ''10''),
                     (''unlockTime'', ''20''), (''externalDisputeUnlockTime'', ''30'')]),
      start_status_monitoring = (\<lambda>h p. None),
      check_payment_status =
        (\<lambda>h p. Inr (JObj [(''data'', JObj [(''status'', JStr ''FundsLocked'')])])),
      complete_payment = (\<lambda>h p pid res. None),
      uuid4 = (\<lambda>h. ''job1''),
      uuid4_time_low = (\<lambda>h. ''7''),
      input_hash = (\<lambda>p. ''hash''),
      str_exn = demo_str_exn\<rparr>"

definition monitor_failing_world :: world where
  "monitor_failing_world =
     demo_world\<lparr>start_status_monitoring := (\<lambda>h p. Some (PaymentError ''monitor down''))\<rparr>"




definition completion_failing_world :: world where
  "completion_failing_world =
     demo_world\<lparr>complete_payment := (\<lambda>h p pid res. Some (PaymentError ''network down''))\<rparr>"

definition request_failing_world :: world where
  "request_failing_world =
     demo_world\<lparr>create_payment_request := (\<lambda>h p. Inl (PaymentError ''network down''))\<rparr>"

definition poll_failing_world :: world where
  "poll_failing_world =
     demo_world\<lparr>check_payment_status := (\<lambda>h p. Inl (PaymentError ''network down''))\<rparr>"

definition demo_request :: CreateProjectRequest where
  "demo_request =
     \<lparr>cp_identifier_from_purchaser = ''buyer'',
      cp_repoUrl = ''https://github.com/acme/repo.git'',
      cp_walletAddress = ''addr1'',
      cp_side = ''light''\<rparr>"

definition demo_payload :: payload_dict where
  "demo_payload =
     \<lparr>p_endpoint = Some ''/api/projects/create'',
      p_method = Some ''POST'',
      p_data = Some [(''repoUrl'', ''https://github.com/acme/repo.git''),
                     (''walletAddress'', ''addr1''),
                     (''side'', ''light''),
                     (''projectId'', ''repo-7'')]\<rparr>"

definition demo_payment :: payment where
  "demo_payment =
     \<lparr>pay_agent_identifier = Some ''agent'',
      pay_amounts = [(''5000000'', ''lovelace'')],
      pay_identifier_from_purchaser = ''buyer'',
      pay_input_action = ''create_project'',
      pay_input_payload = demo_payload,
      payment_ids = {''pay1''}\<rparr>"

definition demo_job :: job where
  "demo_job =
     \<lparr>status = AwaitingPayment,
      payment_status = JStr ''pending'',
      payment_id = ''pay1'',
      action = ''create_project'',
      payload = demo_payload,
      result = JNull,
      identifier_from_purchaser = ''buyer'',
      error = None\<rparr>"

text \<open>The state after \<^verbatim>\<open>POST /create_project\<close> in the demo world, written out.\<close>

definition demo_awaiting :: state where
  "demo_awaiting =
     \<lparr>jobs = [''job1'' \<mapsto> demo_job],
      payment_instances = [''job1'' \<mapsto> demo_payment],
      project_payments = Map.empty,
      history = [CreatePaymentRequest (demo_payment\<lparr>payment_ids := {}\<rparr>),
                 StartStatusMonitoring demo_payment]\<rparr>"

definition demo_info_request :: SetupInfoRequest where
  "demo_info_request =
     \<lparr>si_projectId = ''p1'', si_name = ''n'', si_description = ''d'',
      si_technicalDescription = ''t'', si_imageUrl = ''u''\<rparr>"


definition demo_settled :: state where
  "demo_settled =
     snd (payment_callback demo_world ''job1'' ''create_project'' demo_payload ''pay1''
            demo_awaiting)"



definition demo_settled_twice :: state where
  "demo_settled_twice =
     snd (payment_callback demo_world ''job1'' ''create_project'' demo_payload ''pay1''
            demo_settled)"

section \<open>Properties\<close>

subsection \<open>The Express call and the release of monitoring\<close>

lemma dispatches_append: "dispatches (xs @ ys) = dispatches xs + dispatches ys"
  by (simp add: dispatches_def)

lemma call_express_api_history:
  assumes "call_express_api w ep m d st = (r, st')"
  shows "\<exists>evs. st' = st\<lparr>history := history st @ evs\<rparr> \<and> dispatches evs \<le> 1
           \<and> (m = ''POST'' \<or> m = ''GET'' \<longrightarrow> dispatches evs = 1)
           \<and> filter is_payment_call evs = []"
proof (cases "m = ''POST''")
  case True
  with assms have "st' = st\<lparr>history := history st @ [HttpPost (EXPRESS_SERVER_URL w @ ep) d]\<rparr>"
    by (simp add: call_express_api_def record_call_def Let_def)
  moreover have "dispatches [HttpPost (EXPRESS_SERVER_URL w @ ep) d] = 1"
    by (simp add: dispatches_def)
  moreover have "filter is_payment_call [HttpPost (EXPRESS_SERVER_URL w @ ep) d] = []"
    by simp
  ultimately show ?thesis by (metis le_refl)
next
  case False
  show ?thesis
  proof (cases "m = ''GET''")
    case True
    with False assms
    have "st' = st\<lparr>history := history st @ [HttpGet (EXPRESS_SERVER_URL w @ ep)]\<rparr>"
      by (simp add: call_express_api_def record_call_def Let_def)
    moreover have "dispatches [HttpGet (EXPRESS_SERVER_URL w @ ep)] = 1"
      by (simp add: dispatches_def)
    moreover have "filter is_payment_call [HttpGet (EXPRESS_SERVER_URL w @ ep)] = []"
      by simp
    ultimately show ?thesis by (metis le_refl)
  next
    case other: False
    with False assms have "st' = st\<lparr>history := history st @ []\<rparr>"
      by (simp add: call_express_api_def Let_def)
    moreover have "dispatches [] \<le> 1" by (simp add: dispatches_def)
    moreover have "filter is_payment_call [] = []" by simp
    ultimately show ?thesis using False other by blast
  qed
qed


lemma call_express_api_jobs_irrelevant:
  "call_express_api w ep m d (st\<lparr>jobs := js\<rparr>) =
     (fst (call_express_api w ep m d st), (snd (call_express_api w ep m d st))\<lparr>jobs := js\<rparr>)"
  by (simp add: call_express_api_def record_call_def Let_def)

lemma release_monitoring_stores:
  "jobs (release_monitoring jid st) = jobs st"
  "project_payments (release_monitoring jid st) = project_payments st"
  "payment_instances (release_monitoring jid st) jid = None"
  by (auto simp: release_monitoring_def record_call_def split: option.splits)

lemma release_monitoring_dispatches:
  "dispatches (history (release_monitoring jid st)) = dispatches (history st)"
  by (auto simp: release_monitoring_def record_call_def dispatches_def split: option.splits)

lemma wrap_500_snd: "snd (wrap_500 w prefix r) = snd r"
  by (cases r) (auto simp: wrap_500_def split: sum.splits)

lemma reraise_http_snd: "snd (reraise_http w prefix r) = snd r"
  by (cases r) (auto simp: reraise_http_def split: sum.splits exn.splits)

lemma setup_info_stores:
  "jobs (snd (setup_info w req st)) = jobs st"
  "payment_instances (snd (setup_info w req st)) = payment_instances st"
  "project_payments (snd (setup_info w req st)) = project_payments st"
  by (auto simp: setup_info_def reraise_http_snd call_express_api_def record_call_def Let_def
           split: option.splits)

subsection \<open>The settlement callback on a stored job\<close>

lemma mark_running_job:
  assumes "jobs st jid = Some j"
  shows "mark_running jid st = Inr (st\<lparr>jobs := (jobs st)(jid \<mapsto> j\<lparr>status := Running\<rparr>)\<rparr>)"
  using assms by (simp add: mark_running_def update_job_def)


lemma except_block_job:
  assumes "jobs st jid = Some j"
  shows "except_block w jid e st =
           (None, release_monitoring jid
                    (st\<lparr>jobs := (jobs st)(jid \<mapsto> j\<lparr>status := Failed, error := Some (str_exn w e)\<rparr>)\<rparr>))"
  using assms by (simp add: except_block_def update_job_def)

lemma try_block_job:
  assumes "jobs st jid = Some j" "try_block w jid pid act pl st = (r, s)"
  shows "\<exists>j1. jobs s jid = Some j1 \<and>
           (r = None \<longrightarrow> status j1 = Completed \<and> payment_instances s jid = None) \<and>
           (\<forall>k. k \<noteq> jid \<longrightarrow> jobs s k = jobs st k)"
  using assms
  by (auto simp: try_block_def mark_running_def dispatch_and_complete_def update_job_def
        track_project_payment_def record_call_def Let_def release_monitoring_stores
        dest!: call_express_api_history
        split: option.splits sum.splits prod.splits if_splits)

lemma process_on_job:
  assumes "jobs st jid = Some j" "try_block w jid pid act pl st = (r, s)"
  shows "\<exists>st' j'. process_payment_and_execute w jid pid act pl st = (None, st') \<and>
           jobs st' jid = Some j' \<and> payment_instances st' jid = None \<and>
           (\<forall>k. k \<noteq> jid \<longrightarrow> jobs st' k = jobs st k) \<and>
           dispatches (history st') = dispatches (history s) \<and>
           (case r of None \<Rightarrow> status j' = Completed \<and> st' = s
                    | Some e \<Rightarrow> status j' = Failed \<and> error j' = Some (str_exn w e))"
proof -
  from try_block_job [OF assms] obtain j1 where
    j1: "jobs s jid = Some j1"
    and ok: "r = None \<longrightarrow> status j1 = Completed \<and> payment_instances s jid = None"
    and others: "\<forall>k. k \<noteq> jid \<longrightarrow> jobs s k = jobs st k"
    by blast
  show ?thesis
  proof (cases r)
    case None
    with assms(2) j1 ok others show ?thesis
      by (simp add: process_payment_and_execute_def)
  next
    case (Some e)
    with assms(2) j1 others show ?thesis
      by (simp add: process_payment_and_execute_def except_block_job release_monitoring_stores
            release_monitoring_dispatches)
  qed
qed

lemma try_block_without_instance:
  assumes "jobs st jid = Some j" "payment_instances st jid = None"
    "try_block w jid pid act pl st = (r, s)"
  shows "r \<noteq> None \<and> dispatches (history s) \<le> dispatches (history st) + 1 \<and>
         (p_endpoint pl \<noteq> None \<and>
            (p_method pl = None \<or> p_method pl = Some ''POST'' \<or> p_method pl = Some ''GET'')
          \<longrightarrow> dispatches (history s) = dispatches (history st) + 1)"
  using assms
  by (auto simp: try_block_def mark_running_def dispatch_and_complete_def update_job_def
        dispatches_append
        dest!: call_express_api_history
        split: option.splits sum.splits prod.splits if_splits)

subsection \<open>The concrete run, evaluated\<close>

lemmas callback_defs =
  payment_callback_def process_payment_and_execute_def try_block_def except_block_def
  mark_running_def update_job_def dispatch_and_complete_def call_express_api_def
  express_outcome_def record_call_def track_project_payment_def release_monitoring_def
  project_key_def

lemmas demo_defs =
  demo_awaiting_def demo_world_def demo_payload_def demo_job_def demo_payment_def
  demo_str_exn_def


lemma demo_settled_eq:
  "demo_settled =
     \<lparr>jobs = [''job1'' \<mapsto> demo_job\<lparr>status := Completed,
                                    payment_status := JStr ''completed'',
                                    result := JObj [(''projectId'', JStr ''p1'')]\<rparr>],
      payment_instances = Map.empty,
      project_payments = [''repo-7'' \<mapsto> True],
      history = history demo_awaiting @
        [HttpPost ''http://localhost:3000/api/projects/create'' (p_data demo_payload),
         CompletePayment demo_payment ''pay1'' (JObj [(''projectId'', JStr ''p1'')]),
         StopStatusMonitoring demo_payment]\<rparr>"
  by (simp add: demo_settled_def callback_defs demo_defs Let_def)



lemma demo_settled_twice_eq:
  "demo_settled_twice =
     \<lparr>jobs = [''job1'' \<mapsto> demo_job\<lparr>status := Failed,
                                    payment_status := JStr ''completed'',
                                    result := JObj [(''projectId'', JStr ''p1'')],
                                    error := Some ([CHR 0x27] @ ''job1'' @ [CHR 0x27])\<rparr>],
      payment_instances = Map.empty,
      project_payments = [''repo-7'' \<mapsto> True],
      history = history demo_settled @
        [HttpPost ''http://localhost:3000/api/projects/create'' (p_data demo_payload)]\<rparr>"
  by (simp add: demo_settled_twice_def demo_settled_eq callback_defs demo_defs Let_def)

subsection \<open>Duplicate settlement notifications\<close>

text \<open>
  C1 (as stated, refuted): the job of the concrete run is completed by the first
  settlement callback after one request to Express; the same callback invoked a second
  time with the same payment id sends a second request and leaves the job failed.
\<close>

theorem duplicate_settlement_dispatches_twice:
  "status_of ''job1'' demo_settled = Some Completed \<and>
   dispatches (history demo_settled) = 1 \<and>
   dispatches (history demo_settled_twice) = 2 \<and>
   status_of ''job1'' demo_settled_twice = Some Failed"
  by (simp add: demo_settled_twice_eq demo_settled_eq status_of_def dispatches_def
      demo_awaiting_def)

text \<open>
  C1 (amended): the callback has no terminal-state check. On a stored job its first run
  ends with the job completed or failed and the payment instance removed; a second run
  with the same arguments sends the request to Express again whenever the payload names
  an endpoint with method POST or GET, sends at most one request, and always leaves the
  job failed.
\<close>

theorem second_settlement_redispatches:
  assumes "jobs st jid = Some j"
  shows "\<exists>st1 j1. process_payment_and_execute w jid pid act pl st = (None, st1) \<and>
           jobs st1 jid = Some j1 \<and> (status j1 = Completed \<or> status j1 = Failed) \<and>
           payment_instances st1 jid = None \<and>
           (\<exists>st2 j2. process_payment_and_execute w jid pid act pl st1 = (None, st2) \<and>
              jobs st2 jid = Some j2 \<and> status j2 = Failed \<and>
              dispatches (history st2) \<le> dispatches (history st1) + 1 \<and>
              (p_endpoint pl \<noteq> None \<and>
                 (p_method pl = None \<or> p_method pl = Some ''POST'' \<or>
                  p_method pl = Some ''GET'')
               \<longrightarrow> dispatches (history st2) = dispatches (history st1) + 1))"
proof -
  obtain r s where first: "try_block w jid pid act pl st = (r, s)"
    by (cases "try_block w jid pid act pl st")
  from process_on_job [OF assms first] obtain st1 j1 where
    run1: "process_payment_and_execute w jid pid act pl st = (None, st1)"
    and j1: "jobs st1 jid = Some j1"
    and gone: "payment_instances st1 jid = None"
    and res1: "case r of None \<Rightarrow> status j1 = Completed \<and> st1 = s
                       | Some e \<Rightarrow> status j1 = Failed \<and> error j1 = Some (str_exn w e)"
    by blast
  from res1 have terminal: "status j1 = Completed \<or> status j1 = Failed"
    by (cases r) auto
  obtain r2 s2 where second: "try_block w jid pid act pl st1 = (r2, s2)"
    by (cases "try_block w jid pid act pl st1")
  from try_block_without_instance [OF j1 gone second] obtain e2 where
    r2: "r2 = Some e2"
    and le: "dispatches (history s2) \<le> dispatches (history st1) + 1"
    and eq: "p_endpoint pl \<noteq> None \<and>
               (p_method pl = None \<or> p_method pl = Some ''POST'' \<or> p_method pl = Some ''GET'')
             \<longrightarrow> dispatches (history s2) = dispatches (history st1) + 1"
    by auto
  from process_on_job [OF j1 second] r2 obtain st2 j2 where
    run2: "process_payment_and_execute w jid pid act pl st1 = (None, st2)"
    and j2: "jobs st2 jid = Some j2"
    and same: "dispatches (history st2) = dispatches (history s2)"
    and failed: "status j2 = Failed"
    by auto
  from run1 j1 terminal gone run2 j2 failed same le eq show ?thesis
    by auto
qed

theorem second_settlement_redispatches_witness:
  "jobs demo_awaiting ''job1'' = Some demo_job \<and>
   (\<exists>st1 j1. process_payment_and_execute demo_world ''job1'' ''pay1'' ''create_project''
                demo_payload demo_awaiting = (None, st1) \<and>
           jobs st1 ''job1'' = Some j1 \<and> (status j1 = Completed \<or> status j1 = Failed) \<and>
           payment_instances st1 ''job1'' = None \<and>
           (\<exists>st2 j2. process_payment_and_execute demo_world ''job1'' ''pay1''
                        ''create_project'' demo_payload st1 = (None, st2) \<and>
              jobs st2 ''job1'' = Some j2 \<and> status j2 = Failed \<and>
              dispatches (history st2) \<le> dispatches (history st1) + 1 \<and>
              (p_endpoint demo_payload \<noteq> None \<and>
                 (p_method demo_payload = None \<or> p_method demo_payload = Some ''POST'' \<or>
                  p_method demo_payload = Some ''GET'')
               \<longrightarrow> dispatches (history st2) = dispatches (history st1) + 1)))"
proof -
  have stored: "jobs demo_awaiting ''job1'' = Some demo_job"
    by (simp add: demo_awaiting_def)
  show ?thesis
    by (rule conjI [OF stored second_settlement_redispatches [OF stored]])
qed

subsection \<open>The path of a job's status\<close>

lemma get_status_keeps_status:
  "status_of k (snd (get_status w jid st)) = status_of k st"
  by (auto simp: get_status_def poll_payment_status_def status_of_def record_call_def Let_def
           split: option.splits sum.splits prod.splits)

lemma build_response_job_id:
  "build_response w job_id p d = Inr resp \<Longrightarrow> r_job_id resp = job_id"
  by (auto simp: build_response_def split: sum.splits)

lemma create_payment_job_awaiting:
  assumes "create_payment_job w ident amount act pl st = (Inr resp, st')"
  shows "status_of (r_job_id resp) st' = Some AwaitingPayment"
  using assms
  by (auto simp: create_payment_job_def status_of_def record_call_def Let_def
           dest!: build_response_job_id
           split: sum.splits option.splits)


lemma callback_steps_last:
  "last (callback_steps w jid pid act pl st)
     = snd (process_payment_and_execute w jid pid act pl st)"
  by (auto simp: callback_steps_def process_payment_and_execute_def try_block_def
           split: sum.splits prod.splits option.splits)
















subsection \<open>Errors after the job is stored\<close>

text \<open>
  C3 (as stated, refuted): when the registration of monitoring raises in
  \<^verbatim>\<open>create_payment_job\<close> (line 224), the job has already been stored (line 208); the
  exception leaves as HTTP 500 and the job stays in awaiting_payment with no error
  recorded.
\<close>

theorem monitoring_failure_leaves_job_awaiting:
  "fst (create_project monitor_failing_world demo_request initial_state)
     = Inl (HTTPException 500 ''Failed to create project: monitor down'') \<and>
   status_of ''job1'' (snd (create_project monitor_failing_world demo_request initial_state))
     = Some AwaitingPayment \<and>
   map_option error
     (jobs (snd (create_project monitor_failing_world demo_request initial_state)) ''job1'')
     = Some None"
  by (simp add: create_project_def create_payment_job_def new_payment_def
      monitor_failing_world_def demo_world_def demo_str_exn_def demo_request_def
      initial_state_def wrap_500_def record_call_def subscript_def status_of_def Let_def)

text \<open>
  C3 (amended): for every job in the store, a run of the settlement callback returns
  without an exception and removes the payment instance; when no statement of its try
  block raises, the job ends completed, and when any statement raises (the dispatch,
  the completion report, a missing payment instance or any other exception), the job
  ends failed with the text of that exception recorded as its error.
\<close>

theorem callback_error_ends_failed:
  assumes "jobs st jid = Some j"
  shows "\<exists>st' j'. process_payment_and_execute w jid pid act pl st = (None, st') \<and>
           jobs st' jid = Some j' \<and> payment_instances st' jid = None \<and>
           (case fst (try_block w jid pid act pl st) of
              None \<Rightarrow> status j' = Completed
            | Some e \<Rightarrow> status j' = Failed \<and> error j' = Some (str_exn w e))"
proof -
  obtain r s where tb: "try_block w jid pid act pl st = (r, s)"
    by (cases "try_block w jid pid act pl st")
  from process_on_job [OF assms tb] obtain st' j' where
    "process_payment_and_execute w jid pid act pl st = (None, st')"
    "jobs st' jid = Some j'" "payment_instances st' jid = None"
    "case r of None \<Rightarrow> status j' = Completed \<and> st' = s
             | Some e \<Rightarrow> status j' = Failed \<and> error j' = Some (str_exn w e)"
    by blast
  with tb show ?thesis
    by (cases r) auto
qed

theorem callback_error_ends_failed_witness:
  "jobs demo_awaiting ''job1'' = Some demo_job \<and>
   fst (try_block completion_failing_world ''job1'' ''pay1'' ''create_project''
          demo_payload demo_awaiting) = Some (PaymentError ''network down'') \<and>
   (\<exists>st' j'. process_payment_and_execute completion_failing_world ''job1'' ''pay1''
                ''create_project'' demo_payload demo_awaiting = (None, st') \<and>
           jobs st' ''job1'' = Some j' \<and> payment_instances st' ''job1'' = None \<and>
           (case fst (try_block completion_failing_world ''job1'' ''pay1''
                        ''create_project'' demo_payload demo_awaiting) of
              None \<Rightarrow> status j' = Completed
            | Some e \<Rightarrow>
                status j' = Failed \<and> error j' = Some (str_exn completion_failing_world e)))"
proof -
  have stored: "jobs demo_awaiting ''job1'' = Some demo_job"
    by (simp add: demo_awaiting_def)
  have raised: "fst (try_block completion_failing_world ''job1'' ''pay1'' ''create_project''
          demo_payload demo_awaiting) = Some (PaymentError ''network down'')"
    by (simp add: callback_defs demo_defs completion_failing_world_def Let_def)
  show ?thesis
    by (rule conjI [OF stored conjI [OF raised callback_error_ends_failed [OF stored]]])
qed

subsection \<open>Entitlements and the gate check\<close>





lemma setup_info_refused:
  assumes "project_payments st (si_projectId req) = None"
  shows "setup_info w req st = (Inl payment_required, st)"
  using assms by (simp add: setup_info_def reraise_http_def payment_required_def)










subsection \<open>Failures of the dispatch and of the completion report\<close>





text \<open>
  C9: when the dispatch succeeds and the completion report to the payment network then
  raises, the callback returns with the job failed, its error set, its result as before
  (empty for a job that never completed); the payment instance is removed after
  \<^verbatim>\<open>stop_status_monitoring\<close>, no entitlement is written whatever the action is, and the
  request to Express has been sent.
\<close>

theorem completion_failure_ends_failed:
  assumes "jobs st jid = Some j"
    and "payment_instances st jid = Some p"
    and "p_endpoint pl = Some ep"
    and "call_express_api w ep (case p_method pl of None \<Rightarrow> ''POST'' | Some m \<Rightarrow> m)
           (p_data pl) st = (Inr res, s)"
    and "complete_payment w (history s) p pid res = Some e"
  shows "\<exists>st'. process_payment_and_execute w jid pid act pl st = (None, st') \<and>
           jobs st' jid = Some (j\<lparr>status := Failed, error := Some (str_exn w e)\<rparr>) \<and>
           map_option result (jobs st' jid) = Some (result j) \<and>
           payment_instances st' jid = None \<and>
           project_payments st' = project_payments st \<and>
           history st' = history s @ [CompletePayment p pid res, StopStatusMonitoring p] \<and>
           dispatches (history st') = dispatches (history st) + 1"
proof -
  let ?m = "case p_method pl of None \<Rightarrow> ''POST'' | Some m \<Rightarrow> m"
  let ?running = "(jobs st)(jid \<mapsto> j\<lparr>status := Running\<rparr>)"
  let ?failed = "j\<lparr>status := Failed, error := Some (str_exn w e)\<rparr>"
  from call_express_api_history [OF assms(4)] obtain evs where
    s: "s = st\<lparr>history := history st @ evs\<rparr>"
    and sent: "?m = ''POST'' \<or> ?m = ''GET'' \<longrightarrow> dispatches evs = 1"
    by blast
  have supported: "?m = ''POST'' \<or> ?m = ''GET''"
    using assms(4)
    by (auto simp: call_express_api_def express_outcome_def Let_def split: if_splits)
  from supported sent have one: "dispatches evs = 1" by blast
  have call1: "call_express_api w ep ?m (p_data pl) (st\<lparr>jobs := ?running\<rparr>)
      = (Inr res, s\<lparr>jobs := ?running\<rparr>)"
    using assms(4) by (simp add: call_express_api_jobs_irrelevant)
  have tried: "try_block w jid pid act pl st
      = (Some e, record_call (CompletePayment p pid res) (s\<lparr>jobs := ?running\<rparr>))"
    using assms(2,3,5) call1 s
    by (simp add: try_block_def mark_running_job [OF assms(1)] dispatch_and_complete_def
          Let_def)
  let ?st' = "release_monitoring jid
      ((record_call (CompletePayment p pid res) s)\<lparr>jobs := (jobs st)(jid \<mapsto> ?failed)\<rparr>)"
  have run: "process_payment_and_execute w jid pid act pl st = (None, ?st')"
    using tried s
    by (simp add: process_payment_and_execute_def except_block_def update_job_def
          record_call_def)
  have stored: "jobs ?st' jid = Some ?failed"
    by (simp add: release_monitoring_stores)
  have res: "map_option result (jobs ?st' jid) = Some (result j)"
    by (simp add: stored)
  have released: "payment_instances ?st' jid = None"
    by (simp add: release_monitoring_stores)
  have paid: "project_payments ?st' = project_payments st"
    using s by (simp add: release_monitoring_stores record_call_def)
  have calls: "history ?st' = history s @ [CompletePayment p pid res, StopStatusMonitoring p]"
    using s assms(2) by (simp add: release_monitoring_def record_call_def)
  have count: "dispatches (history ?st') = dispatches (history st) + 1"
    unfolding calls using s one by (simp add: dispatches_def)
  from run stored res released paid calls count show ?thesis
    by blast
qed

theorem completion_failure_ends_failed_witness:
  "jobs demo_awaiting ''job1'' = Some demo_job \<and>
   payment_instances demo_awaiting ''job1'' = Some demo_payment \<and>
   p_endpoint demo_payload = Some ''/api/projects/create'' \<and>
   call_express_api completion_failing_world ''/api/projects/create''
     (case p_method demo_payload of None \<Rightarrow> ''POST'' | Some m \<Rightarrow> m) (p_data demo_payload)
     demo_awaiting
     = (Inr (JObj [(''projectId'', JStr ''p1'')]),
        record_call (HttpPost ''http://localhost:3000/api/projects/create''
                       (p_data demo_payload)) demo_awaiting) \<and>
   (\<exists>st'. process_payment_and_execute completion_failing_world ''job1'' ''pay1''
             ''create_project'' demo_payload demo_awaiting = (None, st') \<and>
      jobs st' ''job1'' = Some (demo_job\<lparr>status := Failed, error := Some ''network down''\<rparr>) \<and>
      map_option result (jobs st' ''job1'') = Some JNull \<and>
      payment_instances st' ''job1'' = None \<and>
      project_payments st' = Map.empty \<and>
      dispatches (history st') = dispatches (history demo_awaiting) + 1)"
proof -
  let ?s = "record_call (HttpPost ''http://localhost:3000/api/projects/create''
                       (p_data demo_payload)) demo_awaiting"
  have stored: "jobs demo_awaiting ''job1'' = Some demo_job"
    by (simp add: demo_awaiting_def)
  have inst: "payment_instances demo_awaiting ''job1'' = Some demo_payment"
    by (simp add: demo_awaiting_def)
  have ep: "p_endpoint demo_payload = Some ''/api/projects/create''"
    by (simp add: demo_payload_def)
  have call: "call_express_api completion_failing_world ''/api/projects/create''
     (case p_method demo_payload of None \<Rightarrow> ''POST'' | Some m \<Rightarrow> m) (p_data demo_payload)
     demo_awaiting = (Inr (JObj [(''projectId'', JStr ''p1'')]), ?s)"
    by (simp add: call_express_api_def express_outcome_def completion_failing_world_def
        demo_world_def demo_payload_def Let_def)
  have raises: "complete_payment completion_failing_world (history ?s) demo_payment ''pay1''
      (JObj [(''projectId'', JStr ''p1'')]) = Some (PaymentError ''network down'')"
    by (simp add: completion_failing_world_def demo_world_def)
  have rendered: "str_exn completion_failing_world (PaymentError ''network down'')
      = ''network down''"
    by (simp add: completion_failing_world_def demo_world_def demo_str_exn_def)
  have fresh: "result demo_job = JNull" "project_payments demo_awaiting = Map.empty"
    by (simp_all add: demo_job_def demo_awaiting_def)
  from completion_failure_ends_failed [OF stored inst ep call raises, of "''create_project''"]
    rendered fresh
  have "\<exists>st'. process_payment_and_execute completion_failing_world ''job1'' ''pay1''
             ''create_project'' demo_payload demo_awaiting = (None, st') \<and>
      jobs st' ''job1'' = Some (demo_job\<lparr>status := Failed, error := Some ''network down''\<rparr>) \<and>
      map_option result (jobs st' ''job1'') = Some JNull \<and>
      payment_instances st' ''job1'' = None \<and>
      project_payments st' = Map.empty \<and>
      dispatches (history st') = dispatches (history demo_awaiting) + 1"
    by auto
  with stored inst ep call show ?thesis by blast
qed

subsection \<open>Job creation and the fees\<close>

text \<open>
  C7: when the creation of the payment request raises in \<^verbatim>\<open>create_payment_job\<close>, the
  exception leaves the function and the three dicts are as before: no job, no payment
  instance and no entitlement has been added; the only trace is the attempted call.
\<close>

theorem instrument_failure_stores_nothing:
  assumes "create_payment_request w (history st) (new_payment w ident amount act pl) = Inl e"
  shows "\<exists>st'. create_payment_job w ident amount act pl st = (Inl e, st') \<and>
           jobs st' = jobs st \<and>
           payment_instances st' = payment_instances st \<and>
           project_payments st' = project_payments st \<and>
           history st' = history st @ [CreatePaymentRequest (new_payment w ident amount act pl)]"
  using assms by (simp add: create_payment_job_def record_call_def Let_def)

theorem instrument_failure_stores_nothing_witness:
  "create_payment_request request_failing_world (history initial_state)
     (new_payment request_failing_world ''buyer'' ''5000000'' ''create_project'' demo_payload)
     = Inl (PaymentError ''network down'') \<and>
   (\<exists>st'. create_payment_job request_failing_world ''buyer'' ''5000000'' ''create_project''
             demo_payload initial_state = (Inl (PaymentError ''network down''), st') \<and>
      jobs st' = jobs initial_state \<and>
      payment_instances st' = payment_instances initial_state \<and>
      project_payments st' = project_payments initial_state \<and>
      history st' = history initial_state @
        [CreatePaymentRequest
           (new_payment request_failing_world ''buyer'' ''5000000'' ''create_project''
              demo_payload)])"
proof -
  have raises: "create_payment_request request_failing_world (history initial_state)
     (new_payment request_failing_world ''buyer'' ''5000000'' ''create_project'' demo_payload)
     = Inl (PaymentError ''network down'')"
    by (simp add: request_failing_world_def demo_world_def)
  show ?thesis
    by (rule conjI [OF raises instrument_failure_stores_nothing [OF raises]])
qed

lemma create_payment_job_amounts:
  "requested_amounts (new_calls st (snd (create_payment_job w ident amount act pl st)))
     = [[(amount, ''lovelace'')]]"
  by (auto simp: create_payment_job_def new_payment_def new_calls_def record_call_def Let_def
           split: sum.splits option.splits)

lemma setup_info_no_payment_call:
  "filter is_payment_call (new_calls st (snd (setup_info w si st))) = []"
  by (auto simp: setup_info_def reraise_http_snd call_express_api_def record_call_def
        new_calls_def Let_def split: option.splits)

text \<open>
  C10: \<^verbatim>\<open>create_project\<close> requests exactly one payment, of 5000000 lovelace, and
  \<^verbatim>\<open>interact\<close> exactly one, of 1000000 lovelace, whatever the request is; the first
  amount is strictly greater than the second, which is strictly positive. The free
  operation \<^verbatim>\<open>setup_info\<close> makes no call to the payment library, stores no job and no
  payment instance, and without an entitlement it does nothing but refuse.
\<close>

theorem fees_fixed_and_ordered:
  "requested_amounts (new_calls st (snd (create_project w cp st)))
     = [[(''5000000'', ''lovelace'')]] \<and>
   requested_amounts (new_calls st (snd (interact w ir st)))
     = [[(''1000000'', ''lovelace'')]] \<and>
   amount_value ''1000000'' < amount_value ''5000000'' \<and>
   0 < amount_value ''1000000'' \<and>
   filter is_payment_call (new_calls st (snd (setup_info w si st))) = [] \<and>
   jobs (snd (setup_info w si st)) = jobs st \<and>
   payment_instances (snd (setup_info w si st)) = payment_instances st \<and>
   (project_payments st (si_projectId si) = None
      \<longrightarrow> setup_info w si st = (Inl payment_required, st))"
proof (intro conjI impI)
  show "requested_amounts (new_calls st (snd (create_project w cp st)))
      = [[(''5000000'', ''lovelace'')]]"
    by (simp add: create_project_def wrap_500_snd create_payment_job_amounts Let_def)
  show "requested_amounts (new_calls st (snd (interact w ir st)))
      = [[(''1000000'', ''lovelace'')]]"
    by (simp add: interact_def wrap_500_snd create_payment_job_amounts Let_def)
  show "amount_value ''1000000'' < amount_value ''5000000''"
    by (simp add: amount_value_def digit_value_def)
  show "0 < amount_value ''1000000''"
    by (simp add: amount_value_def digit_value_def)
  show "filter is_payment_call (new_calls st (snd (setup_info w si st))) = []"
    by (rule setup_info_no_payment_call)
  show "jobs (snd (setup_info w si st)) = jobs st"
    by (rule setup_info_stores)
  show "payment_instances (snd (setup_info w si st)) = payment_instances st"
    by (rule setup_info_stores)
next
  assume "project_payments st (si_projectId si) = None"
  then show "setup_info w si st = (Inl payment_required, st)"
    by (rule setup_info_refused)
qed

theorem fees_fixed_and_ordered_witness:
  "project_payments initial_state (si_projectId demo_info_request) = None \<and>
   setup_info demo_world demo_info_request initial_state
     = (Inl payment_required, initial_state) \<and>
   requested_amounts
     (new_calls initial_state (snd (create_project demo_world demo_request initial_state)))
     = [[(''5000000'', ''lovelace'')]] \<and>
   amount_value ''5000000'' = 5000000 \<and> amount_value ''1000000'' = 1000000"
proof -
  note fees = fees_fixed_and_ordered [of initial_state demo_world demo_request _
      demo_info_request]
  have none: "project_payments initial_state (si_projectId demo_info_request) = None"
    by (simp add: initial_state_def)
  from fees none have refused:
    "setup_info demo_world demo_info_request initial_state
       = (Inl payment_required, initial_state)"
    by blast
  from fees have amounts:
    "requested_amounts
       (new_calls initial_state (snd (create_project demo_world demo_request initial_state)))
       = [[(''5000000'', ''lovelace'')]]"
    by blast
  have parsed: "amount_value ''5000000'' = 5000000" "amount_value ''1000000'' = 1000000"
    by (simp_all add: amount_value_def digit_value_def)
  from none refused amounts parsed show ?thesis by blast
qed

subsection \<open>The status query\<close>

text \<open>
  C8: \<^verbatim>\<open>get_status\<close> on an unknown job id raises 404 "Job not found" and changes
  nothing. On a known job id it returns the job id and the job's status, action and
  result; without a payment instance it returns the stored payment status and changes
  nothing; with one it polls once, and the payment status returned and stored is the
  polled one, or the marker "error" when the poll or the reading of its answer raises:
  the query returns all the same.
\<close>

theorem status_query_best_effort:
  "(jobs st jid = None
      \<longrightarrow> get_status w jid st = (Inl (HTTPException 404 ''Job not found''), st)) \<and>
   (\<forall>j. jobs st jid = Some j \<longrightarrow>
      (\<exists>v st'. get_status w jid st = (Inr v, st') \<and>
         v_job_id v = jid \<and> v_status v = status j \<and>
         v_action v = action j \<and> v_result v = result j \<and>
         (payment_instances st jid = None
            \<longrightarrow> v_payment_status v = payment_status j \<and> st' = st) \<and>
         (\<forall>p. payment_instances st jid = Some p \<longrightarrow>
            history st' = history st @ [CheckPaymentStatus p] \<and>
            v_payment_status v =
              (case check_payment_status w (history st) p of
                 Inl e \<Rightarrow> JStr ''error''
               | Inr s \<Rightarrow>
                   (case status_of_response s of
                      Inl e \<Rightarrow> JStr ''error''
                    | Inr x \<Rightarrow> x)) \<and>
            map_option payment_status (jobs st' jid) = Some (v_payment_status v))))"
proof (intro conjI allI impI)
  assume "jobs st jid = None"
  then show "get_status w jid st = (Inl (HTTPException 404 ''Job not found''), st)"
    by (simp add: get_status_def)
next
  fix j
  assume stored: "jobs st jid = Some j"
  show "\<exists>v st'. get_status w jid st = (Inr v, st') \<and>
         v_job_id v = jid \<and> v_status v = status j \<and>
         v_action v = action j \<and> v_result v = result j \<and>
         (payment_instances st jid = None
            \<longrightarrow> v_payment_status v = payment_status j \<and> st' = st) \<and>
         (\<forall>p. payment_instances st jid = Some p \<longrightarrow>
            history st' = history st @ [CheckPaymentStatus p] \<and>
            v_payment_status v =
              (case check_payment_status w (history st) p of
                 Inl e \<Rightarrow> JStr ''error''
               | Inr s \<Rightarrow>
                   (case status_of_response s of
                      Inl e \<Rightarrow> JStr ''error''
                    | Inr x \<Rightarrow> x)) \<and>
            map_option payment_status (jobs st' jid) = Some (v_payment_status v))"
  proof (cases "payment_instances st jid")
    case None
    have same: "(jobs st)(jid \<mapsto> j) = jobs st"
      using stored by (rule map_upd_triv)
    from None stored same show ?thesis
      by (simp add: get_status_def poll_payment_status_def)
  next
    case (Some p)
    with stored show ?thesis
      by (simp add: get_status_def poll_payment_status_def record_call_def Let_def
            split: sum.splits)
  qed
qed

theorem status_query_best_effort_witness:
  "jobs initial_state ''job1'' = None \<and>
   get_status poll_failing_world ''job1'' initial_state
     = (Inl (HTTPException 404 ''Job not found''), initial_state) \<and>
   jobs demo_awaiting ''job1'' = Some demo_job \<and>
   payment_instances demo_awaiting ''job1'' = Some demo_payment \<and>
   check_payment_status poll_failing_world (history demo_awaiting) demo_payment
     = Inl (PaymentError ''network down'') \<and>
   (\<exists>v st'. get_status poll_failing_world ''job1'' demo_awaiting = (Inr v, st') \<and>
      v_job_id v = ''job1'' \<and> v_status v = AwaitingPayment \<and>
      v_action v = ''create_project'' \<and> v_result v = JNull \<and>
      v_payment_status v = JStr ''error'')"
proof -
  note query = status_query_best_effort [of initial_state "''job1''" poll_failing_world]
  note query2 = status_query_best_effort [of demo_awaiting "''job1''" poll_failing_world]
  have unknown: "jobs initial_state ''job1'' = None"
    by (simp add: initial_state_def)
  from query unknown have not_found:
    "get_status poll_failing_world ''job1'' initial_state
       = (Inl (HTTPException 404 ''Job not found''), initial_state)"
    by blast
  have stored: "jobs demo_awaiting ''job1'' = Some demo_job"
    by (simp add: demo_awaiting_def)
  have inst: "payment_instances demo_awaiting ''job1'' = Some demo_payment"
    by (simp add: demo_awaiting_def)
  have raises: "check_payment_status poll_failing_world (history demo_awaiting) demo_payment
      = Inl (PaymentError ''network down'')"
    by (simp add: poll_failing_world_def demo_world_def)
  have fields: "status demo_job = AwaitingPayment" "action demo_job = ''create_project''"
    "result demo_job = JNull"
    by (simp_all add: demo_job_def)
  from query2 stored obtain v st' where
    ret: "get_status poll_failing_world ''job1'' demo_awaiting = (Inr v, st')"
    and view: "v_job_id v = ''job1''" "v_status v = status demo_job"
      "v_action v = action demo_job" "v_result v = result demo_job"
    and polled: "\<forall>p. payment_instances demo_awaiting ''job1'' = Some p \<longrightarrow>
        v_payment_status v =
          (case check_payment_status poll_failing_world (history demo_awaiting) p of
             Inl e \<Rightarrow> JStr ''error''
           | Inr s \<Rightarrow> (case status_of_response s of Inl e \<Rightarrow> JStr ''error'' | Inr x \<Rightarrow> x))"
    by blast
  from polled inst raises have marker: "v_payment_status v = JStr ''error''"
    by simp
  from unknown not_found stored inst raises ret view fields marker show ?thesis
    by simp
qed

end
